theory Spec2Isabelle
  imports Main
begin

section \<open>The InputField component of MyComponent.jsx\<close>

text \<open>
  The component is a function from its props and its two pieces of hook state to a tree of
  elements. The model keeps that shape: a record for the props as they stand after the
  destructuring defaults, a record for the hook state, one definition for every local of the
  component body, a record for each element of the returned tree, and one function for each
  event handler.

  The rest parameter \<open>...props\<close> is empty for every caller that type-checks against
  \<open>InputFieldProps\<close>, which declares no further key, so the spread on the input adds no
  attribute and is left out.
\<close>

subsection \<open>Props and hook state\<close>

text \<open>
  Optional props with a default (\<open>value\<close>, \<open>disabled\<close>, \<open>invalid\<close>, \<open>loading\<close>, \<open>variant\<close>,
  \<open>size\<close>, \<open>type\<close>, \<open>showClearButton\<close>, \<open>theme\<close>, \<open>className\<close>) hold the value the body sees.
  Optional props without a default are options, \<open>None\<close> being \<open>undefined\<close>. A callback is a
  reference of type \<open>'f\<close> to a function of the caller. \<open>variant\<close>, \<open>type\<close> and \<open>theme\<close> are strings
  because the body compares them with string literals and has a branch for every other
  string; \<open>size\<close> is only ever a key of the two size tables.
\<close>

datatype size_key = sm | md | lg

record 'f InputFieldProps =
  value_prop :: string
  onChange :: "'f option"
  label_prop :: "string option"
  placeholder :: "string option"
  helperText :: "string option"
  errorMessage :: "string option"
  disabled :: bool
  invalid :: bool
  loading :: bool
  variant :: string
  size_prop :: size_key
  type_prop :: string
  showClearButton :: bool
  theme :: string
  onClear :: "'f option"
  className :: string

text \<open>The props of \<open><InputField />\<close> with nothing supplied: every default of lines 24 to 39.\<close>

definition defaults :: "'f InputFieldProps" where
  "defaults =
     \<lparr> value_prop = '''', onChange = None, label_prop = None, placeholder = None,
       helperText = None, errorMessage = None, disabled = False, invalid = False,
       loading = False, variant = ''outlined'', size_prop = md, type_prop = ''text'',
       showClearButton = False, theme = ''light'', onClear = None, className = '''' \<rparr>"

text \<open>The two \<open>useState\<close> cells, both initialised to \<open>false\<close>.\<close>

record ui_state =
  showPassword :: bool
  isFocused :: bool

definition initial_state :: ui_state where
  "initial_state = \<lparr> showPassword = False, isFocused = False \<rparr>"

text \<open>The three \<open>useId\<close> results: distinct identifiers of one instance.\<close>

datatype elem_id = inputId | helperTextId | errorId

text \<open>JavaScript truthiness of an optional string: \<open>undefined\<close> and \<open>""\<close> are falsy.\<close>

definition truthy :: "string option \<Rightarrow> bool" where
  "truthy s = (case s of None \<Rightarrow> False | Some t \<Rightarrow> t \<noteq> [])"

subsection \<open>Locals of the component body\<close>

definition isPassword :: "'f InputFieldProps \<Rightarrow> bool" where
  "isPassword p = (type_prop p = ''password'')"

definition inputType :: "'f InputFieldProps \<Rightarrow> ui_state \<Rightarrow> string" where
  "inputType p s =
     (if isPassword p then (if showPassword s then ''text'' else ''password'') else type_prop p)"

definition hasError :: "'f InputFieldProps \<Rightarrow> bool" where
  "hasError p = (invalid p \<or> truthy (errorMessage p))"

text \<open>\<open>value && value.length > 0\<close>, read as a condition.\<close>

definition hasValue :: "'f InputFieldProps \<Rightarrow> bool" where
  "hasValue p = (value_prop p \<noteq> [] \<and> length (value_prop p) > 0)"

definition sizeClasses :: "size_key \<Rightarrow> string" where
  "sizeClasses k =
     (case k of sm \<Rightarrow> ''px-3 py-2 text-sm'' | md \<Rightarrow> ''px-4 py-3 text-base''
      | lg \<Rightarrow> ''px-5 py-4 text-lg'')"

definition iconSizeClasses :: "size_key \<Rightarrow> string" where
  "iconSizeClasses k = (case k of sm \<Rightarrow> ''w-4 h-4'' | md \<Rightarrow> ''w-5 h-5'' | lg \<Rightarrow> ''w-6 h-6'')"

definition baseClasses :: string where
  "baseClasses =
     ''w-full rounded-lg border transition-all duration-200 focus:outline-none focus:ring-2''"

definition getVariantClasses :: "'f InputFieldProps \<Rightarrow> string" where
  "getVariantClasses p =
     (if disabled p then
        baseClasses @ '' opacity-50 cursor-not-allowed bg-gray-100 border-gray-200 text-gray-400''
      else if hasError p then
        (if variant p = ''filled'' then
           baseClasses @ '' bg-red-50 border-red-200 text-red-900 focus:ring-red-500 focus:border-red-500''
         else if variant p = ''ghost'' then
           baseClasses @ '' bg-transparent border-transparent border-b-red-500 border-b-2 rounded-none focus:ring-red-500 focus:border-b-red-500''
         else
           baseClasses @ '' bg-white border-red-300 text-gray-900 focus:ring-red-500 focus:border-red-500'')
      else
        (if variant p = ''filled'' then
           baseClasses @ '' bg-gray-100 border-gray-200 text-gray-900 focus:ring-blue-500 focus:border-blue-500 hover:bg-gray-50''
         else if variant p = ''ghost'' then
           baseClasses @ '' bg-transparent border-transparent border-b-gray-300 border-b-2 rounded-none focus:ring-blue-500 focus:border-b-blue-500 hover:border-b-gray-400''
         else
           baseClasses @ '' bg-white border-gray-300 text-gray-900 focus:ring-blue-500 focus:border-blue-500 hover:border-gray-400''))"

definition themeClasses :: "'f InputFieldProps \<Rightarrow> string" where
  "themeClasses p = (if theme p = ''dark'' then ''dark'' else '''')"

subsection \<open>Event handlers\<close>

text \<open>
  A handler runs against the hook state and may call a callback of the caller. Its result is
  the new hook state and the calls it made, in order, or the error it raised. Calling a
  callback that is \<open>undefined\<close> raises a \<open>TypeError\<close> in JavaScript, so \<open>invoke\<close> has that
  branch, and a handler is safe only where it guards the call.
\<close>

datatype js_error = TypeError

datatype 'f call =
    Call_onClear 'f
  | Call_onChange 'f string

type_synonym 'f outcome = "js_error + ui_state \<times> 'f call list"

definition invoke :: "'f option \<Rightarrow> ('f \<Rightarrow> 'f call) \<Rightarrow> ui_state \<Rightarrow> 'f outcome" where
  "invoke f mk s = (case f of None \<Rightarrow> Inl TypeError | Some g \<Rightarrow> Inr (s, [mk g]))"

text \<open>
  \<open>handleClear\<close>, lines 98 to 107. \<open>Call_onChange g v\<close> is the call \<open>g({target: {value: v}})\<close>.
\<close>

definition handleClear :: "'f InputFieldProps \<Rightarrow> ui_state \<Rightarrow> 'f outcome" where
  "handleClear p s =
     (if onClear p \<noteq> None then invoke (onClear p) Call_onClear s
      else if onChange p \<noteq> None then invoke (onChange p) (\<lambda>g. Call_onChange g '''') s
      else Inr (s, []))"

text \<open>The click handler of the password toggle, line 173.\<close>

definition onClick_toggle :: "ui_state \<Rightarrow> 'f outcome" where
  "onClick_toggle s = Inr (s\<lparr>showPassword := \<not> showPassword s\<rparr>, [])"

text \<open>The focus and blur handlers of the input, lines 145 and 146.\<close>

definition onFocus :: "ui_state \<Rightarrow> 'f outcome" where
  "onFocus s = Inr (s\<lparr>isFocused := True\<rparr>, [])"

definition onBlur :: "ui_state \<Rightarrow> 'f outcome" where
  "onBlur s = Inr (s\<lparr>isFocused := False\<rparr>, [])"

subsection \<open>The rendered tree\<close>

text \<open>
  One record for each kind of element the component returns, with the attributes the source
  sets. An \<open>onClick\<close>, \<open>onFocus\<close> or \<open>onBlur\<close> attribute holds the name of the handler
  the source puts there; \<open>run\<close> gives what that handler does.
\<close>

datatype handler = HandleClear | TogglePassword | SetFocused | SetBlurred

definition run :: "'f InputFieldProps \<Rightarrow> handler \<Rightarrow> ui_state \<Rightarrow> 'f outcome" where
  "run p h s =
     (case h of HandleClear \<Rightarrow> handleClear p s | TogglePassword \<Rightarrow> onClick_toggle s
      | SetFocused \<Rightarrow> onFocus s | SetBlurred \<Rightarrow> onBlur s)"

datatype icon_kind = Eye | EyeOff | X | Loader2

record icon_elem =
  icon_kind :: icon_kind
  icon_className :: string

record label_elem =
  label_htmlFor :: elem_id
  label_className :: string
  label_children :: string

record 'f input_elem =
  input_id :: elem_id
  input_type :: string
  input_value :: string
  input_onChange :: "'f option"
  input_placeholder :: "string option"
  input_disabled :: bool
  aria_invalid :: bool
  aria_describedby :: "elem_id option"
  input_className :: string
  input_onFocus :: handler
  input_onBlur :: handler

record button_elem =
  button_onClick :: handler
  button_className :: string
  button_aria_label :: string
  button_icon :: icon_elem

record footer_elem =
  footer_id :: elem_id
  footer_className :: string
  footer_children :: "string option"

record 'f rendered =
  root_className :: string
  label_el :: "label_elem option"
  input_el :: "'f input_elem"
  spinner :: "icon_elem option"
  clear_button :: "button_elem option"
  password_toggle :: "button_elem option"
  footer :: "footer_elem option"

definition render_label :: "'f InputFieldProps \<Rightarrow> label_elem option" where
  "render_label p =
     (case label_prop p of
        None \<Rightarrow> None
      | Some l \<Rightarrow>
          if l \<noteq> [] then
            Some \<lparr> label_htmlFor = inputId,
                   label_className =
                     ''block text-sm font-medium mb-2 ''
                     @ (if hasError p then ''text-red-700 dark:text-red-400''
                        else ''text-gray-700 dark:text-gray-300'')
                     @ '' '' @ (if disabled p then ''opacity-50'' else ''''),
                   label_children = l \<rparr>
          else None)"

definition render_input :: "'f InputFieldProps \<Rightarrow> ui_state \<Rightarrow> 'f input_elem" where
  "render_input p s =
     \<lparr> input_id = inputId,
       input_type = inputType p s,
       input_value = value_prop p,
       input_onChange = onChange p,
       input_placeholder = placeholder p,
       input_disabled = disabled p,
       aria_invalid = hasError p,
       aria_describedby =
         (if hasError p then Some errorId
          else if truthy (helperText p) then Some helperTextId
          else None),
       input_className =
         getVariantClasses p @ '' '' @ sizeClasses (size_prop p) @ '' ''
         @ (if (showClearButton p \<and> hasValue p) \<or> isPassword p \<or> loading p then ''pr-12''
            else '''')
         @ '' dark:bg-gray-800 dark:border-gray-600 dark:text-white dark:placeholder-gray-400'',
       input_onFocus = SetFocused,
       input_onBlur = SetBlurred \<rparr>"

definition render_spinner :: "'f InputFieldProps \<Rightarrow> icon_elem option" where
  "render_spinner p =
     (if loading p then
        Some \<lparr> icon_kind = Loader2,
               icon_className = iconSizeClasses (size_prop p) @ '' text-gray-400 animate-spin'' \<rparr>
      else None)"

definition button_classes :: string where
  "button_classes =
     ''text-gray-400 hover:text-gray-600 dark:text-gray-500 dark:hover:text-gray-300 transition-colors''"

definition render_clear :: "'f InputFieldProps \<Rightarrow> button_elem option" where
  "render_clear p =
     (if showClearButton p \<and> hasValue p \<and> \<not> loading p \<and> \<not> disabled p then
        Some \<lparr> button_onClick = HandleClear,
               button_className = button_classes,
               button_aria_label = ''Clear input'',
               button_icon =
                 \<lparr> icon_kind = X, icon_className = iconSizeClasses (size_prop p) \<rparr> \<rparr>
      else None)"

definition render_toggle :: "'f InputFieldProps \<Rightarrow> ui_state \<Rightarrow> button_elem option" where
  "render_toggle p s =
     (if isPassword p \<and> \<not> loading p then
        Some \<lparr> button_onClick = TogglePassword,
               button_className = button_classes,
               button_aria_label = (if showPassword s then ''Hide password'' else ''Show password''),
               button_icon =
                 \<lparr> icon_kind = (if showPassword s then EyeOff else Eye),
                   icon_className = iconSizeClasses (size_prop p) \<rparr> \<rparr>
      else None)"

definition render_footer :: "'f InputFieldProps \<Rightarrow> footer_elem option" where
  "render_footer p =
     (if truthy (helperText p) \<or> truthy (errorMessage p) then
        Some \<lparr> footer_id = (if hasError p then errorId else helperTextId),
               footer_className =
                 ''mt-2 text-sm ''
                 @ (if hasError p then ''text-red-600 dark:text-red-400''
                    else ''text-gray-500 dark:text-gray-400'')
                 @ '' '' @ (if disabled p then ''opacity-50'' else ''''),
               footer_children = (if hasError p then errorMessage p else helperText p) \<rparr>
      else None)"

text \<open>The component itself: the tree returned at lines 109 to 201.\<close>

definition InputField :: "'f InputFieldProps \<Rightarrow> ui_state \<Rightarrow> 'f rendered" where
  "InputField p s =
     \<lparr> root_className = themeClasses p @ '' w-full max-w-md '' @ className p,
       label_el = render_label p,
       input_el = render_input p s,
       spinner = render_spinner p,
       clear_button = render_clear p,
       password_toggle = render_toggle p s,
       footer = render_footer p \<rparr>"

text \<open>
  What a region of the page displays. React renders a child that is \<open>undefined\<close> as nothing,
  like the empty string, and a region whose element is not in the tree displays nothing.
\<close>

definition shown :: "string option \<Rightarrow> string" where
  "shown c = (case c of None \<Rightarrow> '''' | Some t \<Rightarrow> t)"

definition footer_text :: "'f rendered \<Rightarrow> string" where
  "footer_text r = (case footer r of None \<Rightarrow> '''' | Some f \<Rightarrow> shown (footer_children f))"

text \<open>The identifiers that elements of the tree carry in their \<open>id\<close> attribute.\<close>

definition ids_in_tree :: "'f rendered \<Rightarrow> elem_id list" where
  "ids_in_tree r =
     input_id (input_el r) # (case footer r of None \<Rightarrow> [] | Some f \<Rightarrow> [footer_id f])"

section \<open>Properties of the component\<close>

subsection \<open>Error display and helper text\<close>

text \<open>
  Claim C1. Whenever the error condition holds (\<open>invalid\<close> is true or \<open>errorMessage\<close> is a
  non-empty string), the input carries \<open>aria-invalid\<close>, and what the footer region displays
  is the error message and not the helper text. The footer element, where the tree has one,
  bears the error identifier and has \<open>errorMessage\<close> as its child; the tree has none only when
  neither text is there to display, and then the region displays the empty text, which is
  what the absent error message is.
\<close>

theorem C1_error_precedence:
  assumes "hasError p"
  shows "aria_invalid (input_el (InputField p s))
       \<and> (case footer (InputField p s) of
            None \<Rightarrow> \<not> truthy (helperText p) \<and> \<not> truthy (errorMessage p)
          | Some f \<Rightarrow> footer_id f = errorId \<and> footer_children f = errorMessage p)
       \<and> footer_text (InputField p s) = shown (errorMessage p)
       \<and> (shown (helperText p) \<noteq> shown (errorMessage p)
            \<longrightarrow> footer_text (InputField p s) \<noteq> shown (helperText p))"
  using assms
  by (auto simp: InputField_def render_input_def render_footer_def footer_text_def shown_def
      truthy_def split: option.splits)

theorem C1_error_precedence_witness:
  "hasError (defaults\<lparr>invalid := True, errorMessage := Some ''This field is required'',
       helperText := Some ''help''\<rparr> :: nat InputFieldProps)
   \<and> aria_invalid (input_el (InputField (defaults\<lparr>invalid := True,
         errorMessage := Some ''This field is required'', helperText := Some ''help''\<rparr> :: nat InputFieldProps) initial_state))
   \<and> footer_text (InputField (defaults\<lparr>invalid := True,
         errorMessage := Some ''This field is required'', helperText := Some ''help''\<rparr> :: nat InputFieldProps) initial_state)
       = ''This field is required''
   \<and> footer_text (InputField (defaults\<lparr>invalid := True,
         errorMessage := Some ''This field is required'', helperText := Some ''help''\<rparr> :: nat InputFieldProps) initial_state)
       \<noteq> ''help''"
proof -
  let ?p = "defaults\<lparr>invalid := True, errorMessage := Some ''This field is required'',
       helperText := Some ''help''\<rparr> :: nat InputFieldProps"
  have h: "hasError ?p" by (simp add: hasError_def)
  have e: "shown (errorMessage ?p) = ''This field is required''" by (simp add: shown_def defaults_def)
  have t: "shown (helperText ?p) = ''help''" by (simp add: shown_def defaults_def)
  from C1_error_precedence [OF h, of initial_state] h e t show ?thesis by simp
qed

text \<open>
  Claim C7. When the error condition does not hold and \<open>helperText\<close> is a non-empty string,
  the footer element is in the tree, bears the helper identifier, and displays exactly
  \<open>helperText\<close>.
\<close>

theorem C7_helper_text_shown:
  assumes "\<not> hasError p" and "helperText p = Some h" and "h \<noteq> []"
  shows "(\<exists>f. footer (InputField p s) = Some f \<and> footer_id f = helperTextId
              \<and> footer_children f = Some h)
       \<and> footer_text (InputField p s) = h"
  using assms
  by (simp add: InputField_def render_footer_def footer_text_def shown_def truthy_def)

theorem C7_helper_text_shown_witness:
  "\<not> hasError (defaults\<lparr>helperText := Some ''This is helper text''\<rparr> :: nat InputFieldProps)
   \<and> footer_text (InputField (defaults\<lparr>helperText := Some ''This is helper text''\<rparr> :: nat InputFieldProps)
        initial_state) = ''This is helper text''"
proof -
  let ?p = "defaults\<lparr>helperText := Some ''This is helper text''\<rparr> :: nat InputFieldProps"
  have e: "\<not> hasError ?p" by (simp add: hasError_def truthy_def defaults_def)
  have h: "helperText ?p = Some ''This is helper text''" by simp
  from C7_helper_text_shown [OF e h, of initial_state] e show ?thesis by simp
qed

subsection \<open>The description association\<close>

text \<open>
  The \<open>aria-describedby\<close> attribute follows the three-way choice of lines 135 to 141, and
  whenever one of the two texts is non-empty the element it names is in the tree with the
  matching child.
\<close>

lemma aria_describedby_cases:
  "aria_describedby (input_el (InputField p s))
     = (if hasError p then Some errorId
        else if truthy (helperText p) then Some helperTextId else None)"
  by (simp add: InputField_def render_input_def)

lemma described_element_exists:
  assumes "truthy (helperText p) \<or> truthy (errorMessage p)"
  shows "\<exists>i f. aria_describedby (input_el (InputField p s)) = Some i
           \<and> footer (InputField p s) = Some f \<and> footer_id f = i
           \<and> footer_children f = (if hasError p then errorMessage p else helperText p)"
  using assms
  by (auto simp: InputField_def render_input_def render_footer_def hasError_def)

text \<open>
  Claim C8. The claim asks that, when the error condition holds, the element bearing the
  identifier named by \<open>aria-describedby\<close> exists. With \<open>invalid\<close> set and neither
  \<open>errorMessage\<close> nor \<open>helperText\<close> supplied, the input names the error identifier but the
  guard of line 188 leaves the footer out, so no element of the tree bears it. The helper
  branch of the same attribute does check that its text is there.
\<close>

theorem C8_dangling_description:
  "hasError (defaults\<lparr>invalid := True\<rparr> :: nat InputFieldProps)
   \<and> aria_describedby (input_el (InputField (defaults\<lparr>invalid := True\<rparr> :: nat InputFieldProps)
        initial_state)) = Some errorId
   \<and> footer (InputField (defaults\<lparr>invalid := True\<rparr> :: nat InputFieldProps) initial_state) = None
   \<and> errorId \<notin> set (ids_in_tree (InputField (defaults\<lparr>invalid := True\<rparr> :: nat InputFieldProps)
        initial_state))"
  by (simp add: hasError_def truthy_def defaults_def InputField_def render_input_def
      render_footer_def ids_in_tree_def)

subsection \<open>The clear action\<close>

text \<open>
  Claim C2. The clear button is in the tree if and only if \<open>showClearButton\<close> is true, the
  current text is non-empty, \<open>loading\<close> is false and \<open>disabled\<close> is false.
\<close>

theorem C2_clear_rendered_iff:
  "(clear_button (InputField p s) \<noteq> None)
     = (showClearButton p \<and> value_prop p \<noteq> [] \<and> \<not> loading p \<and> \<not> disabled p)"
  by (simp add: InputField_def render_clear_def hasValue_def)

theorem C2_clear_rendered_iff_witness:
  "clear_button (InputField (defaults\<lparr>value_prop := ''abc'', showClearButton := True\<rparr> :: nat InputFieldProps) initial_state) \<noteq> None
   \<and> clear_button (InputField (defaults\<lparr>value_prop := ''abc'', showClearButton := True, loading := True\<rparr> :: nat InputFieldProps) initial_state) = None"
  using C2_clear_rendered_iff [of "defaults\<lparr>value_prop := ''abc'', showClearButton := True\<rparr> :: nat InputFieldProps" initial_state]
    C2_clear_rendered_iff [of "defaults\<lparr>value_prop := ''abc'', showClearButton := True, loading := True\<rparr> :: nat InputFieldProps" initial_state]
  by (simp add: defaults_def)

text \<open>
  Claim C4, as amended. A click on the clear action calls \<open>onClear\<close>, and nothing else, when
  it is supplied. When \<open>onClear\<close> is not supplied and \<open>onChange\<close> is, it calls \<open>onChange\<close> once
  with an event whose target value is the empty string. The hook state is left as it was.
\<close>

theorem C4_clear_calls:
  "(onClear p = Some k \<longrightarrow> handleClear p s = Inr (s, [Call_onClear k]))
   \<and> (onClear p = None \<and> onChange p = Some c
        \<longrightarrow> handleClear p s = Inr (s, [Call_onChange c '''']))"
  by (simp add: handleClear_def invoke_def)

theorem C4_clear_calls_witness:
  "handleClear (defaults\<lparr>value_prop := ''abc'', showClearButton := True, onChange := Some 1,
        onClear := Some 2\<rparr> :: nat InputFieldProps) initial_state
     = Inr (initial_state, [Call_onClear 2])
   \<and> handleClear (defaults\<lparr>value_prop := ''abc'', showClearButton := True, onChange := Some 1\<rparr>
        :: nat InputFieldProps) initial_state
     = Inr (initial_state, [Call_onChange 1 ''''])"
proof -
  let ?p = "defaults\<lparr>value_prop := ''abc'', showClearButton := True, onChange := Some 1,
        onClear := Some 2\<rparr> :: nat InputFieldProps"
  let ?q = "defaults\<lparr>value_prop := ''abc'', showClearButton := True, onChange := Some 1\<rparr>
        :: nat InputFieldProps"
  have a: "onClear ?p = Some 2" by simp
  have b: "onClear ?q = None \<and> onChange ?q = Some 1" by (simp add: defaults_def)
  from C4_clear_calls [of ?p 2 initial_state] a have 1: "handleClear ?p initial_state = Inr (initial_state, [Call_onClear 2])"
    by blast
  from C4_clear_calls [of ?q _ initial_state 1] b have 2: "handleClear ?q initial_state = Inr (initial_state, [Call_onChange 1 ''''])"
    by blast
  from 1 2 show ?thesis by simp
qed

text \<open>
  The claim as first stated promises a change notification whenever \<open>onClear\<close> is not
  supplied. In the example configuration with no \<open>onChange\<close> either, the clear button is in
  the tree and a click on it makes no call at all.
\<close>

theorem C4_clear_without_callbacks_counterexample:
  "onClear (defaults\<lparr>value_prop := ''abc'', showClearButton := True\<rparr> :: nat InputFieldProps) = None
   \<and> clear_button (InputField (defaults\<lparr>value_prop := ''abc'', showClearButton := True\<rparr> :: nat InputFieldProps)
        initial_state) \<noteq> None
   \<and> handleClear (defaults\<lparr>value_prop := ''abc'', showClearButton := True\<rparr> :: nat InputFieldProps)
        initial_state = Inr (initial_state, [])"
  by (simp add: defaults_def handleClear_def InputField_def render_clear_def hasValue_def)

text \<open>
  Claim C10. With neither \<open>onClear\<close> nor \<open>onChange\<close> supplied, a click on the clear action
  makes no call, raises no error and leaves the hook state as it was.
\<close>

theorem C10_clear_no_callbacks:
  assumes "onClear p = None" and "onChange p = None"
  shows "handleClear p s = Inr (s, []) \<and> run p HandleClear s = Inr (s, [])"
  using assms by (simp add: handleClear_def run_def)

theorem C10_clear_no_callbacks_witness:
  "onClear (defaults :: nat InputFieldProps) = None
   \<and> onChange (defaults :: nat InputFieldProps) = None
   \<and> handleClear (defaults :: nat InputFieldProps) \<lparr>showPassword = True, isFocused = True\<rparr>
       = Inr (\<lparr>showPassword = True, isFocused = True\<rparr>, [])"
proof -
  have a: "onClear (defaults :: nat InputFieldProps) = None" by (simp add: defaults_def)
  have b: "onChange (defaults :: nat InputFieldProps) = None" by (simp add: defaults_def)
  from C10_clear_no_callbacks [OF a b, of "\<lparr>showPassword = True, isFocused = True\<rparr>"] a b
  show ?thesis by simp
qed

subsection \<open>The password toggle and the effective type\<close>

text \<open>
  Claim C3. For \<open>type = "password"\<close>, a click on the reveal toggle flips the rendered type,
  a second click returns the hook state, and with it the rendered type, to where it was;
  neither click makes a call; the rendered \<open>value\<close> is the \<open>value\<close> prop before and after.
  From the initial state the rendered type is \<open>password\<close>, and \<open>text\<close> after one click.
\<close>

theorem C3_toggle_round_trip:
  assumes "type_prop p = ''password''"
  shows "run p TogglePassword s = Inr (s\<lparr>showPassword := \<not> showPassword s\<rparr>, [])
       \<and> run p TogglePassword (s\<lparr>showPassword := \<not> showPassword s\<rparr>) = Inr (s, [])
       \<and> input_type (input_el (InputField p (s\<lparr>showPassword := \<not> showPassword s\<rparr>)))
           \<noteq> input_type (input_el (InputField p s))
       \<and> input_type (input_el (InputField p initial_state)) = ''password''
       \<and> input_type (input_el (InputField p (initial_state\<lparr>showPassword := True\<rparr>))) = ''text''
       \<and> input_value (input_el (InputField p s)) = value_prop p
       \<and> input_value (input_el (InputField p (s\<lparr>showPassword := \<not> showPassword s\<rparr>))) = value_prop p"
  using assms
  by (simp add: run_def onClick_toggle_def InputField_def render_input_def inputType_def
      isPassword_def initial_state_def)

theorem C3_toggle_round_trip_witness:
  "type_prop (defaults\<lparr>type_prop := ''password'', value_prop := ''secret''\<rparr> :: nat InputFieldProps) = ''password''
   \<and> run (defaults\<lparr>type_prop := ''password'', value_prop := ''secret''\<rparr> :: nat InputFieldProps)
        TogglePassword initial_state = Inr (\<lparr>showPassword = True, isFocused = False\<rparr>, [])
   \<and> run (defaults\<lparr>type_prop := ''password'', value_prop := ''secret''\<rparr> :: nat InputFieldProps)
        TogglePassword \<lparr>showPassword = True, isFocused = False\<rparr> = Inr (initial_state, [])
   \<and> input_type (input_el (InputField (defaults\<lparr>type_prop := ''password'', value_prop := ''secret''\<rparr> :: nat InputFieldProps)
        initial_state)) = ''password''
   \<and> input_type (input_el (InputField (defaults\<lparr>type_prop := ''password'', value_prop := ''secret''\<rparr> :: nat InputFieldProps)
        \<lparr>showPassword = True, isFocused = False\<rparr>)) = ''text''
   \<and> input_value (input_el (InputField (defaults\<lparr>type_prop := ''password'', value_prop := ''secret''\<rparr> :: nat InputFieldProps)
        \<lparr>showPassword = True, isFocused = False\<rparr>)) = ''secret''"
proof -
  let ?p = "defaults\<lparr>type_prop := ''password'', value_prop := ''secret''\<rparr> :: nat InputFieldProps"
  have h: "type_prop ?p = ''password''" by simp
  have v: "value_prop ?p = ''secret''" by simp
  from C3_toggle_round_trip [OF h, of initial_state] h v show ?thesis
    by (simp add: initial_state_def)
qed

text \<open>
  Claim C5, as amended. The rendered type is \<open>password\<close> exactly when \<open>type\<close> is
  \<open>password\<close> and the reveal flag is false. When \<open>type\<close> is \<open>password\<close> and the reveal flag is
  true it is \<open>text\<close>. When \<open>type\<close> is not \<open>password\<close> it is the declared \<open>type\<close>.
\<close>

theorem C5_effective_type:
  "(input_type (input_el (InputField p s)) = ''password'')
      = (type_prop p = ''password'' \<and> \<not> showPassword s)
   \<and> (type_prop p = ''password'' \<and> showPassword s
        \<longrightarrow> input_type (input_el (InputField p s)) = ''text'')
   \<and> (type_prop p \<noteq> ''password'' \<longrightarrow> input_type (input_el (InputField p s)) = type_prop p)"
  by (simp add: InputField_def render_input_def inputType_def isPassword_def)

theorem C5_effective_type_witness:
  "input_type (input_el (InputField (defaults\<lparr>type_prop := ''password''\<rparr> :: nat InputFieldProps)
        initial_state)) = ''password''
   \<and> input_type (input_el (InputField (defaults\<lparr>type_prop := ''password''\<rparr> :: nat InputFieldProps)
        \<lparr>showPassword = True, isFocused = False\<rparr>)) = ''text''
   \<and> input_type (input_el (InputField (defaults\<lparr>type_prop := ''email''\<rparr> :: nat InputFieldProps)
        \<lparr>showPassword = True, isFocused = False\<rparr>)) = ''email''"
proof -
  let ?p = "defaults\<lparr>type_prop := ''password''\<rparr> :: nat InputFieldProps"
  let ?q = "defaults\<lparr>type_prop := ''email''\<rparr> :: nat InputFieldProps"
  let ?s = "\<lparr>showPassword = True, isFocused = False\<rparr>"
  have p: "type_prop ?p = ''password''" by simp
  have q: "type_prop ?q \<noteq> ''password''" by simp
  have i: "\<not> showPassword initial_state" by (simp add: initial_state_def)
  have s: "showPassword ?s" by simp
  from C5_effective_type [of ?p initial_state] p i
  have 1: "input_type (input_el (InputField ?p initial_state)) = ''password''" by blast
  from C5_effective_type [of ?p ?s] p s
  have 2: "input_type (input_el (InputField ?p ?s)) = ''text''" by blast
  from C5_effective_type [of ?q ?s] q
  have 3: "input_type (input_el (InputField ?q ?s)) = ''email''" by simp
  from 1 2 3 show ?thesis by simp
qed

text \<open>
  The claim as first stated has the input rendered with its declared kind in every case
  other than \<open>password\<close> with the reveal flag false. A revealed password field is such a
  case, and it is rendered as \<open>text\<close>, not as its declared \<open>password\<close>.
\<close>

theorem C5_revealed_password_counterexample:
  "\<not> (type_prop (defaults\<lparr>type_prop := ''password''\<rparr> :: nat InputFieldProps) = ''password''
        \<and> \<not> showPassword \<lparr>showPassword = True, isFocused = False\<rparr>)
   \<and> input_type (input_el (InputField (defaults\<lparr>type_prop := ''password''\<rparr> :: nat InputFieldProps)
        \<lparr>showPassword = True, isFocused = False\<rparr>))
      \<noteq> type_prop (defaults\<lparr>type_prop := ''password''\<rparr> :: nat InputFieldProps)"
  by (simp add: InputField_def render_input_def inputType_def isPassword_def)

subsection \<open>Style selection\<close>

text \<open>
  Claim C6. \<open>getVariantClasses\<close> depends on the props only through \<open>disabled\<close>, the error
  condition and \<open>variant\<close>; a variant other than \<open>filled\<close> and \<open>ghost\<close> is styled as
  \<open>outlined\<close>; a disabled input gets the disabled style whatever the variant and the error
  flags are; and every output is the output at one of the twelve entries of the table
  (two values of \<open>disabled\<close>, two of the error condition, three variants).
\<close>

theorem C6_style_selection:
  "(disabled p = disabled q \<and> hasError p = hasError q \<and> variant p = variant q
      \<longrightarrow> getVariantClasses p = getVariantClasses q)
   \<and> (variant p \<noteq> ''filled'' \<and> variant p \<noteq> ''ghost''
      \<longrightarrow> getVariantClasses p = getVariantClasses (p\<lparr>variant := ''outlined''\<rparr>))
   \<and> (disabled p
      \<longrightarrow> getVariantClasses p
          = baseClasses @ '' opacity-50 cursor-not-allowed bg-gray-100 border-gray-200 text-gray-400'')
   \<and> getVariantClasses p
       = getVariantClasses
           (defaults\<lparr>disabled := disabled p, invalid := hasError p,
              variant := (if variant p = ''filled'' \<or> variant p = ''ghost'' then variant p
                          else ''outlined'')\<rparr>)"
  by (simp add: getVariantClasses_def hasError_def truthy_def defaults_def)

theorem C6_style_selection_witness:
  "getVariantClasses (defaults\<lparr>variant := ''ghost'', disabled := True\<rparr> :: nat InputFieldProps)
     = baseClasses @ '' opacity-50 cursor-not-allowed bg-gray-100 border-gray-200 text-gray-400''
   \<and> getVariantClasses (defaults\<lparr>variant := ''ghost'', disabled := True, invalid := True\<rparr> :: nat InputFieldProps)
     = getVariantClasses (defaults\<lparr>variant := ''filled'', disabled := True\<rparr> :: nat InputFieldProps)
   \<and> getVariantClasses (defaults\<lparr>variant := ''underlined''\<rparr> :: nat InputFieldProps)
     = getVariantClasses (defaults :: nat InputFieldProps)
   \<and> getVariantClasses (defaults\<lparr>variant := ''ghost'', errorMessage := Some ''bad''\<rparr> :: nat InputFieldProps)
     = getVariantClasses (defaults\<lparr>variant := ''ghost'', invalid := True\<rparr> :: nat InputFieldProps)"
proof -
  let ?a = "defaults\<lparr>variant := ''ghost'', disabled := True\<rparr> :: nat InputFieldProps"
  let ?b = "defaults\<lparr>variant := ''ghost'', disabled := True, invalid := True\<rparr> :: nat InputFieldProps"
  let ?c = "defaults\<lparr>variant := ''filled'', disabled := True\<rparr> :: nat InputFieldProps"
  let ?u = "defaults\<lparr>variant := ''underlined''\<rparr> :: nat InputFieldProps"
  let ?e = "defaults\<lparr>variant := ''ghost'', errorMessage := Some ''bad''\<rparr> :: nat InputFieldProps"
  let ?i = "defaults\<lparr>variant := ''ghost'', invalid := True\<rparr> :: nat InputFieldProps"
  have da: "disabled ?a" and db: "disabled ?b" and dc: "disabled ?c" by simp_all
  have u: "variant ?u \<noteq> ''filled'' \<and> variant ?u \<noteq> ''ghost''" by simp
  have uo: "?u\<lparr>variant := ''outlined''\<rparr> = defaults" by (simp add: defaults_def)
  have ei: "disabled ?e = disabled ?i \<and> hasError ?e = hasError ?i \<and> variant ?e = variant ?i"
    by (simp add: hasError_def truthy_def defaults_def)
  from C6_style_selection [of ?a ?a] da
  have 1: "getVariantClasses ?a
     = baseClasses @ '' opacity-50 cursor-not-allowed bg-gray-100 border-gray-200 text-gray-400''"
    by blast
  from C6_style_selection [of ?b ?b] db C6_style_selection [of ?c ?c] dc
  have 2: "getVariantClasses ?b = getVariantClasses ?c" by metis
  from C6_style_selection [of ?u ?u] u uo
  have 3: "getVariantClasses ?u = getVariantClasses (defaults :: nat InputFieldProps)" by metis
  from C6_style_selection [of ?e ?i] ei
  have 4: "getVariantClasses ?e = getVariantClasses ?i" by blast
  from 1 2 3 4 show ?thesis by blast
qed

subsection \<open>The focus flag\<close>

text \<open>
  Claim C9. The rendered tree does not depend on the focus flag: for fixed props and reveal
  flag, the tree with \<open>isFocused\<close> true is the tree with \<open>isFocused\<close> false. The focus and blur
  handlers write the flag and do nothing else.
\<close>

theorem C9_focus_not_rendered:
  "InputField p (s\<lparr>isFocused := True\<rparr>) = InputField p (s\<lparr>isFocused := False\<rparr>)
   \<and> InputField p (s\<lparr>isFocused := b\<rparr>) = InputField p s
   \<and> run p SetFocused s = Inr (s\<lparr>isFocused := True\<rparr>, [])
   \<and> run p SetBlurred s = Inr (s\<lparr>isFocused := False\<rparr>, [])"
  by (simp add: InputField_def render_input_def render_toggle_def inputType_def run_def
      onFocus_def onBlur_def)

end
